theory Spec2Isabelle
  imports Complex_Main "HOL-Library.Log_Nat"
begin

section \<open>JavaScript values used by the coffee routes\<close>

text \<open>
  The routes file (api/coffee, an Express router over two Mongoose models) computes with
  JavaScript numbers and strings. A number is NaN, an infinity, or a finite value.
\<close>

datatype jsnum = NaN | PosInf | NegInf | Fin rat

text \<open>
  A value arriving in a request body, or stored in a field: absent, a number or a string.
\<close>

datatype jsval = JUndefined | JNum jsnum | JStr string

text \<open>
  Two pieces of the language runtime are taken as parameters: the conversion of a string
  to a number (ECMAScript StringToNumber, behind \<open>Number(s)\<close>), and the printing of a
  finite number of magnitude at least \<open>10^21\<close>, for which \<open>toFixed\<close> falls back to
  the exponent notation of \<open>Number.prototype.toString\<close>.
\<close>

record js_runtime =
  StringToNumber :: "string \<Rightarrow> jsnum"
  NumberToString :: "rat \<Rightarrow> string"

definition Number_js :: "js_runtime \<Rightarrow> jsval \<Rightarrow> jsnum" where
  "Number_js rt v =
     (case v of JUndefined \<Rightarrow> NaN | JNum n \<Rightarrow> n | JStr s \<Rightarrow> StringToNumber rt s)"

text \<open>
  A finite number is an IEEE double, kept as the rational it denotes. Every sum and
  quotient is rounded to the nearest double, to the even mantissa on a tie, and to an
  infinity from \<open>2^1024 - 2^970\<close> on. The sign of zero is not kept: the routes never
  divide by a computed zero, and \<open>toFixed\<close> prints both zeros alike.
\<close>

definition pow2 :: "int \<Rightarrow> rat" where
  "pow2 e = (if 0 \<le> e then 2 ^ nat e else 1 / 2 ^ nat (- e))"

text \<open>For a positive \<open>a\<close>, the exponent \<open>e\<close> with \<open>2^e \<le> a < 2^(e+1)\<close>.\<close>

definition floor_log2 :: "rat \<Rightarrow> int" where
  "floor_log2 a =
     (let (p, d) = quotient_of a;
          e0 = bitlen p - bitlen d
      in if pow2 e0 \<le> a then e0 else e0 - 1)"

definition round_half_even :: "rat \<Rightarrow> int" where
  "round_half_even x =
     (let f = \<lfloor>x\<rfloor>; r = x - of_int f
      in if r < 1 / 2 then f else if 1 / 2 < r then f + 1 else if even f then f else f + 1)"

text \<open>
  The double nearest to a rational: 53 bits of mantissa at the exponent of the value, the
  exponent being at least \<open>-1022\<close> (below it the doubles are \<open>2^-1074\<close> apart). A
  rounded value of \<open>2^1024\<close> or more is an infinity.
\<close>

definition round_double :: "rat \<Rightarrow> jsnum" where
  "round_double q =
     (if q = 0 then Fin 0
      else
        (let a = \<bar>q\<bar>;
             e = max (floor_log2 a) (- 1022);
             u = pow2 (e - 52);
             m = round_half_even (a / u);
             r = of_int m * u
         in if m = 0 then Fin 0
            else if 1024 \<le> floor_log2 r then (if 0 < q then PosInf else NegInf)
            else Fin (if 0 < q then r else - r)))"

fun js_add :: "jsnum \<Rightarrow> jsnum \<Rightarrow> jsnum" where
  "js_add NaN _ = NaN"
| "js_add _ NaN = NaN"
| "js_add PosInf NegInf = NaN"
| "js_add NegInf PosInf = NaN"
| "js_add PosInf _ = PosInf"
| "js_add _ PosInf = PosInf"
| "js_add NegInf _ = NegInf"
| "js_add _ NegInf = NegInf"
| "js_add (Fin a) (Fin b) = round_double (a + b)"

text \<open>
  Division. A zero divisor is the positive zero: the only divisor in the routes is an
  array length.
\<close>

fun js_div :: "jsnum \<Rightarrow> jsnum \<Rightarrow> jsnum" where
  "js_div NaN _ = NaN"
| "js_div _ NaN = NaN"
| "js_div (Fin a) (Fin b) =
     (if b = 0 then (if a = 0 then NaN else if 0 < a then PosInf else NegInf)
      else round_double (a / b))"
| "js_div (Fin a) _ = Fin 0"
| "js_div PosInf (Fin b) = (if 0 \<le> b then PosInf else NegInf)"
| "js_div NegInf (Fin b) = (if 0 \<le> b then NegInf else PosInf)"
| "js_div _ _ = NaN"

text \<open>The decimal digits of a natural number, most significant first.\<close>

function dec :: "nat \<Rightarrow> string" where
  "dec n =
     (if n < 10 then [''0123456789'' ! n]
      else dec (n div 10) @ [''0123456789'' ! (n mod 10)])"
  by pat_completeness auto
termination
  by (relation "measure id") auto

declare dec.simps [simp del]

text \<open>
  \<open>Number.prototype.toFixed(f)\<close>: NaN prints as \<open>NaN\<close>; a negative number prints its
  sign and then its magnitude; a magnitude of \<open>10^21\<close> or more is printed by
  \<open>toString\<close>; otherwise the integer \<open>n\<close> nearest to \<open>x * 10^f\<close> (the larger one on
  a tie) is printed with a point before its last \<open>f\<close> digits, zero-padded on the left to
  \<open>f + 1\<close> digits.
\<close>

definition toFixed :: "js_runtime \<Rightarrow> nat \<Rightarrow> jsnum \<Rightarrow> string" where
  "toFixed rt f x =
     (case x of
        NaN \<Rightarrow> ''NaN''
      | PosInf \<Rightarrow> ''Infinity''
      | NegInf \<Rightarrow> ''-Infinity''
      | Fin q \<Rightarrow>
          (let s = (if q < 0 then ''-'' else '''');
               a = \<bar>q\<bar>
           in if 10 ^ 21 \<le> a then s @ NumberToString rt a
              else
                (let n = nat \<lfloor>a * 10 ^ f + 1 / 2\<rfloor>;
                     m = dec n;
                     m0 = (if length m \<le> f then replicate (f + 1 - length m) CHR ''0'' @ m else m);
                     k = length m0
                 in if f = 0 then s @ m
                    else s @ take (k - f) m0 @ ''.'' @ drop (k - f) m0)))"

text \<open>\<open>Array.prototype.indexOf\<close>: the first index holding the value, or \<open>-1\<close>.\<close>

fun indexOf :: "'a list \<Rightarrow> 'a \<Rightarrow> int" where
  "indexOf [] x = - 1"
| "indexOf (y # ys) x =
     (if y = x then 0 else (let i = indexOf ys x in if i < 0 then - 1 else i + 1))"

text \<open>
  \<open>Array.prototype.splice(start, deleteCount)\<close> with no inserted items: a negative start
  counts from the end, and both arguments are clamped to the array.
\<close>

definition splice_js :: "int \<Rightarrow> nat \<Rightarrow> 'a list \<Rightarrow> 'a list" where
  "splice_js start deleteCount xs =
     (let len = int (length xs);
          k = nat (if start < 0 then max (len + start) 0 else min start len)
      in take k xs @ drop (k + min deleteCount (length xs - k)) xs)"

section \<open>Documents and the store\<close>

text \<open>
  The Mongoose schemas (models/Coffee, models/User) are not among the sources. The records
  below hold the fields the routes read and write. A field is assigned as the handler
  writes it; no schema cast is applied. \<open>comments\<close> may be absent, since the read route
  tests it for presence; \<open>likes\<close> is always an array.
\<close>

record like =
  like_user :: string

record comment =
  comment_id :: string
  comment_text :: jsval
  comment_review :: jsval
  comment_name :: string
  comment_avatar :: string
  comment_user :: string

record coffee =
  coffee_id :: string
  coffee_user :: string
  likes :: "like list"
  comments :: "comment list option"
  averageReview :: jsval
  totalReview :: jsval

record user =
  user_name :: string
  user_avatar :: string

text \<open>
  \<open>Model.findById(id)\<close> has three outcomes: the promise rejects because the id cannot be
  cast to an ObjectId, it resolves to null, or it resolves to a document. The store gives
  the outcome for every id string.
\<close>

datatype 'a found = CastError | Null | Doc 'a

record store =
  coffees :: "string \<Rightarrow> coffee found"
  users :: "string \<Rightarrow> user found"

text \<open>
  \<open>doc.save()\<close> and \<open>doc.remove()\<close> write under the document's own \<open>_id\<close>. The
  write itself is taken to succeed: a failure of the database is not modelled.
\<close>

definition save :: "store \<Rightarrow> coffee \<Rightarrow> store" where
  "save st c = st\<lparr>coffees := (coffees st)(coffee_id c := Doc c)\<rparr>"

definition remove :: "store \<Rightarrow> coffee \<Rightarrow> store" where
  "remove st c = st\<lparr>coffees := (coffees st)(coffee_id c := Null)\<rparr>"

section \<open>Responses\<close>

datatype body =
    JsonMsg string
  | SendText string
  | JsonCoffee coffee
  | JsonCoffees "coffee list"
  | JsonLikes "like list"
  | JsonComments "comment list"
  | JsonErrors "(string \<times> string) list"

record response =
  status :: nat
  body :: body

definition json :: "body \<Rightarrow> response" where
  "json b = \<lparr>status = 200, body = b\<rparr>"

text \<open>Every \<open>catch\<close> block of the file answers the same way.\<close>

definition server_error :: response where
  "server_error = \<lparr>status = 500, body = SendText ''Server Error''\<rparr>"

text \<open>
  The error kinds of the specification, as the handlers report them: not found is status
  404, authorization is status 401, and status 400 is a validation error when the body is
  the validators' list of errors and a conflict when it is a message.
\<close>

definition NotFoundError :: "response \<Rightarrow> bool" where
  "NotFoundError r \<longleftrightarrow> status r = 404"

definition ValidationError :: "response \<Rightarrow> bool" where
  "ValidationError r \<longleftrightarrow>
     status r = 400 \<and> (case body r of JsonErrors _ \<Rightarrow> True | _ \<Rightarrow> False)"

definition ConflictError :: "response \<Rightarrow> bool" where
  "ConflictError r \<longleftrightarrow>
     status r = 400 \<and> (case body r of JsonMsg _ \<Rightarrow> True | _ \<Rightarrow> False)"

definition AuthorizationError :: "response \<Rightarrow> bool" where
  "AuthorizationError r \<longleftrightarrow> status r = 401"

section \<open>The routes\<close>

text \<open>The test \<open>id.match(/^[0-9a-fA-F]{24}$/)\<close>.\<close>

definition is_hex :: "char \<Rightarrow> bool" where
  "is_hex c \<longleftrightarrow> c \<in> set ''0123456789abcdefABCDEF''"

definition objectid_format :: "string \<Rightarrow> bool" where
  "objectid_format s \<longleftrightarrow> length s = 24 \<and> list_all is_hex s"

subsection \<open>GET /:id\<close>

text \<open>
  The handler looks the document up first. \<open>coffee.comments\<close> on a null result throws a
  TypeError, which the \<open>catch\<close> block answers with 500; the same block answers a
  rejected lookup. \<open>coffee.comments && e\<close> is undefined when the field is absent and
  \<open>e\<close> otherwise (an array, even an empty one, is truthy), and undefined converts to
  NaN in the division. The test of the id format and of \<open>!coffee\<close> comes after the
  derived fields are assigned; in the branch that reaches it the document is not null.
\<close>

definition getById :: "js_runtime \<Rightarrow> store \<Rightarrow> string \<Rightarrow> response \<times> store" where
  "getById rt st pid =
     (case coffees st pid of
        CastError \<Rightarrow> (server_error, st)
      | Null \<Rightarrow> (server_error, st)
      | Doc coffee \<Rightarrow>
          (let totalReviewNumber =
                 (case comments coffee of
                    None \<Rightarrow> JUndefined
                  | Some cs \<Rightarrow>
                      JNum (foldl (\<lambda>comment currentValue.
                              js_add comment (Number_js rt (comment_review currentValue)))
                            (Fin 0) cs));
               totalReviewCount =
                 (case comments coffee of
                    None \<Rightarrow> JUndefined
                  | Some cs \<Rightarrow> JNum (Fin (of_nat (length cs))));
               averageReviewText =
                 toFixed rt 2 (js_div (Number_js rt totalReviewNumber) (Number_js rt totalReviewCount));
               coffee' = coffee
                 \<lparr>averageReview :=
                    (if comments coffee \<noteq> None then JStr averageReviewText else JNum (Fin 0)),
                  totalReview :=
                    (if comments coffee \<noteq> None then totalReviewCount else JNum (Fin 0))\<rparr>
           in if \<not> objectid_format pid
              then (\<lparr>status = 404, body = JsonMsg ''Coffee not found''\<rparr>, st)
              else (json (JsonCoffee coffee'), save st coffee')))"

subsection \<open>DELETE /:id\<close>

text \<open>\<open>pid\<close> is \<open>req.params.id\<close> and \<open>uid\<close> is \<open>req.user.id\<close>, the caller's identity as the auth
  middleware resolved it.\<close>

definition deleteById :: "store \<Rightarrow> string \<Rightarrow> string \<Rightarrow> response \<times> store" where
  "deleteById st pid uid =
     (case coffees st pid of
        CastError \<Rightarrow> (server_error, st)
      | Null \<Rightarrow> (\<lparr>status = 404, body = JsonMsg ''Coffee not found''\<rparr>, st)
      | Doc post \<Rightarrow>
          if \<not> objectid_format pid
          then (\<lparr>status = 404, body = JsonMsg ''Coffee not found''\<rparr>, st)
          else if coffee_user post \<noteq> uid
          then (\<lparr>status = 401, body = JsonMsg ''User not authorized''\<rparr>, st)
          else (json (JsonMsg ''Coffee removed''), remove st post))"

subsection \<open>PUT /like/:id and PUT /unlike/:id\<close>

text \<open>\<open>post.likes\<close> on a null result throws a TypeError: status 500.\<close>

definition like_post :: "store \<Rightarrow> string \<Rightarrow> string \<Rightarrow> response \<times> store" where
  "like_post st pid uid =
     (case coffees st pid of
        CastError \<Rightarrow> (server_error, st)
      | Null \<Rightarrow> (server_error, st)
      | Doc post \<Rightarrow>
          if length (filter (\<lambda>l. like_user l = uid) (likes post)) > 0
          then (\<lparr>status = 400, body = JsonMsg ''Coffee already liked''\<rparr>, st)
          else
            (let post' = post\<lparr>likes := \<lparr>like_user = uid\<rparr> # likes post\<rparr>
             in (json (JsonLikes (likes post')), save st post')))"

definition unlike_post :: "store \<Rightarrow> string \<Rightarrow> string \<Rightarrow> response \<times> store" where
  "unlike_post st pid uid =
     (case coffees st pid of
        CastError \<Rightarrow> (server_error, st)
      | Null \<Rightarrow> (server_error, st)
      | Doc post \<Rightarrow>
          if length (filter (\<lambda>l. like_user l = uid) (likes post)) = 0
          then (\<lparr>status = 400, body = JsonMsg ''Coffee has not yet been liked''\<rparr>, st)
          else
            (let removeIndex = indexOf (map like_user (likes post)) uid;
                 post' = post\<lparr>likes := splice_js removeIndex 1 (likes post)\<rparr>
             in (json (JsonLikes (likes post')), save st post')))"

text \<open>
  A sequence of like and unlike requests by one user on one record, each run to completion
  before the next starts; the responses are dropped and the store is threaded through.
\<close>

datatype like_op = Like | Unlike

fun run_ops :: "store \<Rightarrow> string \<Rightarrow> string \<Rightarrow> like_op list \<Rightarrow> store" where
  "run_ops st pid uid [] = st"
| "run_ops st pid uid (Like # ops) = run_ops (snd (like_post st pid uid)) pid uid ops"
| "run_ops st pid uid (Unlike # ops) = run_ops (snd (unlike_post st pid uid)) pid uid ops"

text \<open>
  The like handler as the event loop runs it. It is suspended twice: at
  \<open>await Coffee.findById\<close> and at \<open>await post.save()\<close>. Its first step reads the record,
  tests it and puts the user in front of the likes of the document it holds (\<open>liked\<close>);
  its second step writes that document and answers. Between the two steps another request
  may run. Run one after the other, the two steps are \<open>like_post\<close>.
\<close>

datatype task = Start | Await coffee | Done response

definition liked :: "coffee \<Rightarrow> string \<Rightarrow> coffee" where
  "liked post uid = post\<lparr>likes := \<lparr>like_user = uid\<rparr> # likes post\<rparr>"

fun like_advance :: "store \<Rightarrow> string \<Rightarrow> string \<Rightarrow> task \<Rightarrow> task \<times> store" where
  "like_advance st pid uid Start =
     (case coffees st pid of
        CastError \<Rightarrow> (Done server_error, st)
      | Null \<Rightarrow> (Done server_error, st)
      | Doc post \<Rightarrow>
          if length (filter (\<lambda>l. like_user l = uid) (likes post)) > 0
          then (Done \<lparr>status = 400, body = JsonMsg ''Coffee already liked''\<rparr>, st)
          else (Await (liked post uid), st))"
| "like_advance st pid uid (Await post') = (Done (json (JsonLikes (likes post'))), save st post')"
| "like_advance st pid uid (Done r) = (Done r, st)"



subsection \<open>POST /comment/:id\<close>

text \<open>
  The validators are \<open>check('text').not().isEmpty()\<close> and the same for \<open>review\<close>.
  \<open>check\<close> reads a field in five places of the request: body, cookies, headers, route
  parameters and query string. The handler itself reads \<open>req.body\<close> only.
\<close>

record field_values =
  in_body :: jsval
  in_cookies :: jsval
  in_headers :: jsval
  in_params :: jsval
  in_query :: jsval

definition locations :: "field_values \<Rightarrow> jsval list" where
  "locations f = [in_body f, in_cookies f, in_headers f, in_params f, in_query f]"

text \<open>
  The values a validator runs on: those of the places that hold the field, every one of
  which has to pass; when no place holds it, the undefined value of the body.
\<close>

definition selected :: "field_values \<Rightarrow> jsval list" where
  "selected f =
     (let withValue = filter (\<lambda>v. v \<noteq> JUndefined) (locations f)
      in if withValue \<noteq> [] then withValue else [in_body f])"

text \<open>
  express-validator turns the value into a string first: an absent value and NaN give the
  empty string, any other number its decimal form.
\<close>

definition isEmpty :: "jsval \<Rightarrow> bool" where
  "isEmpty v = (case v of JUndefined \<Rightarrow> True | JNum n \<Rightarrow> n = NaN | JStr s \<Rightarrow> s = [])"

text \<open>One error for every selected value that is empty; both validators carry the same message.\<close>

definition field_errors :: "string \<Rightarrow> field_values \<Rightarrow> (string \<times> string) list" where
  "field_errors param f = map (\<lambda>v. (param, ''Text is required'')) (filter isEmpty (selected f))"

definition validationResult :: "field_values \<Rightarrow> field_values \<Rightarrow> (string \<times> string) list" where
  "validationResult text review = field_errors ''text'' text @ field_errors ''review'' review"

text \<open>
  \<open>newid\<close> is the \<open>_id\<close> that Mongoose gives the new subdocument. The user is looked up
  before the record. \<open>user.name\<close> on a null user and \<open>coffee.comments.unshift\<close> on a
  null record or an absent array throw a TypeError. The comment takes \<open>req.body.text\<close> and
  \<open>req.body.review\<close>, whatever the validators have looked at.
\<close>

definition addComment ::
  "store \<Rightarrow> string \<Rightarrow> string \<Rightarrow> string \<Rightarrow> field_values \<Rightarrow> field_values
     \<Rightarrow> response \<times> store" where
  "addComment st pid uid newid text review =
     (let errors = validationResult text review
      in if errors \<noteq> [] then (\<lparr>status = 400, body = JsonErrors errors\<rparr>, st)
         else
           (case users st uid of
              CastError \<Rightarrow> (server_error, st)
            | Null \<Rightarrow>
                (server_error, st)
            | Doc user \<Rightarrow>
                (case coffees st pid of
                   CastError \<Rightarrow> (server_error, st)
                 | Null \<Rightarrow> (server_error, st)
                 | Doc coffee \<Rightarrow>
                     (let newComment =
                            \<lparr>comment_id = newid, comment_text = in_body text,
                             comment_review = in_body review,
                             comment_name = user_name user, comment_avatar = user_avatar user,
                             comment_user = uid\<rparr>
                      in case comments coffee of
                           None \<Rightarrow> (server_error, st)
                         | Some cs \<Rightarrow>
                             (let coffee' = coffee\<lparr>comments := Some (newComment # cs)\<rparr>
                              in (json (JsonComments (newComment # cs)), save st coffee'))))))"

text \<open>
  A field fails its validator when no place of the request holds it, or when some place
  holds it with an empty value.
\<close>

definition absent_or_empty :: "field_values \<Rightarrow> bool" where
  "absent_or_empty f \<longleftrightarrow>
     list_all (\<lambda>v. v = JUndefined) (locations f)
     \<or> list_ex (\<lambda>v. v \<noteq> JUndefined \<and> isEmpty v) (locations f)"

subsection \<open>DELETE /comment/:id/:comment_id\<close>

definition removeComment :: "store \<Rightarrow> string \<Rightarrow> string \<Rightarrow> string \<Rightarrow> response \<times> store" where
  "removeComment st pid cid uid =
     (case coffees st pid of
        CastError \<Rightarrow> (server_error, st)
      | Null \<Rightarrow> (server_error, st)
      | Doc post \<Rightarrow>
          (case comments post of
             None \<Rightarrow> (server_error, st)
           | Some cs \<Rightarrow>
               (case find (\<lambda>c. comment_id c = cid) cs of
                  None \<Rightarrow> (\<lparr>status = 404, body = JsonMsg ''Comment does not exist''\<rparr>, st)
                | Some c \<Rightarrow>
                    if comment_user c \<noteq> uid
                    then (\<lparr>status = 401, body = JsonMsg ''User not authorized''\<rparr>, st)
                    else
                      (let cs' = filter (\<lambda>c. comment_id c \<noteq> cid) cs;
                           post' = post\<lparr>comments := Some cs'\<rparr>
                       in (json (JsonComments cs'), save st post')))))"

subsection \<open>GET /\<close>

text \<open>
  The two lookup tables of the handler are object literals. Reading a property gives the
  string the table holds under that key (the third key is spelled \<open>loweset\<close> in the
  source), the member of \<open>Object.prototype\<close> when the key names one (a function, or the
  prototype itself for \<open>__proto__\<close>), and undefined otherwise.
\<close>

datatype entry = Undefined | Value string | Inherited string

definition object_prototype_keys :: "string list" where
  "object_prototype_keys =
     [''constructor'', ''__defineGetter__'', ''__defineSetter__'', ''hasOwnProperty'',
      ''__lookupGetter__'', ''__lookupSetter__'', ''isPrototypeOf'', ''propertyIsEnumerable'',
      ''toString'', ''valueOf'', ''__proto__'', ''toLocaleString'']"

definition label :: "string \<Rightarrow> entry" where
  "label k =
     (if k = ''highest'' then Value ''averageReview''
      else if k = ''loweset'' then Value ''averageReview''
      else if k = ''most'' then Value ''totalReview''
      else if k = ''least'' then Value ''totalReview''
      else if k \<in> set object_prototype_keys then Inherited k
      else Undefined)"

definition labelValue :: "string \<Rightarrow> entry" where
  "labelValue k =
     (if k = ''highest'' then Value ''-1''
      else if k = ''loweset'' then Value ''1''
      else if k = ''most'' then Value ''-1''
      else if k = ''least'' then Value ''1''
      else if k \<in> set object_prototype_keys then Inherited k
      else Undefined)"

text \<open>
  \<open>sortby\<close> is \<open>req.query.sortby\<close>, given by the property key it converts to: absent,
  it is looked up as the string \<open>undefined\<close>.
\<close>

definition property_key :: "string option \<Rightarrow> string" where
  "property_key sortby = (case sortby of None \<Rightarrow> ''undefined'' | Some k \<Rightarrow> k)"

text \<open>
  The sort object has one property: its name is the label converted to a string, its value
  is the sort value. It is kept as the pair of the two. The query
  \<open>Coffee.find().sort(sortbyObj)\<close> belongs to the store and is a parameter: it either
  throws or yields the records in some order.
\<close>

definition list_posts :: "(entry \<times> entry \<Rightarrow> unit + coffee list) \<Rightarrow> string option \<Rightarrow> response" where
  "list_posts find_sort sortby =
     (let sortbyLabel = label (property_key sortby);
          sortValue = labelValue (property_key sortby);
          sortbyObj = (sortbyLabel, sortValue)
      in case find_sort sortbyObj of
           Inl _ \<Rightarrow> server_error
         | Inr posts \<Rightarrow> json (JsonCoffees posts))"

text \<open>The four sort modes that the specification names.\<close>

definition named_sort_modes :: "string set" where
  "named_sort_modes = {''highest'', ''lowest'', ''most'', ''least''}"

section \<open>Sample data\<close>

text \<open>
  A runtime for the examples: its string conversion is given on the strings that occur
  below (\<open>Number("4")\<close> is 4, \<open>Number("5")\<close> is 5, \<open>Number("abc")\<close> is NaN), and no
  number of the examples is large enough to be printed in exponent notation.
\<close>

definition sample_runtime :: js_runtime where
  "sample_runtime =
     \<lparr>StringToNumber = (\<lambda>s. if s = ''4'' then Fin 4 else if s = ''5'' then Fin 5 else NaN),
      NumberToString = (\<lambda>_. [])\<rparr>"

definition shop_id :: string where
  "shop_id = ''5d7a514b5d2c12c7449be042''"

definition other_id :: string where
  "other_id = ''5d7a514b5d2c12c7449be0ff''"

definition ann :: string where
  "ann = ''5d7a50f05d2c12c7449be041''"

definition bob :: string where
  "bob = ''5d7a50f05d2c12c7449be0b0''"

definition ann_comment :: comment where
  "ann_comment =
     \<lparr>comment_id = ''5d7a52135d2c12c7449be043'', comment_text = JStr ''good flat white'',
      comment_review = JStr ''4'', comment_name = ''Ann'', comment_avatar = ''ann.png'',
      comment_user = ann\<rparr>"

definition bob_comment :: comment where
  "bob_comment =
     \<lparr>comment_id = ''5d7a52605d2c12c7449be044'', comment_text = JStr ''friendly'',
      comment_review = JStr ''5'', comment_name = ''Bob'', comment_avatar = ''bob.png'',
      comment_user = bob\<rparr>"

text \<open>A record as it is after creation, and the same record with two comments and a like.\<close>

definition new_shop :: coffee where
  "new_shop =
     \<lparr>coffee_id = shop_id, coffee_user = ann, likes = [], comments = Some [],
      averageReview = JNum (Fin 0), totalReview = JNum (Fin 0)\<rparr>"

definition rated_shop :: coffee where
  "rated_shop =
     \<lparr>coffee_id = shop_id, coffee_user = ann, likes = [\<lparr>like_user = bob\<rparr>],
      comments = Some [bob_comment, ann_comment],
      averageReview = JNum (Fin 0), totalReview = JNum (Fin 0)\<rparr>"

text \<open>
  A store holding one record and the two users. The lookup of an id that is not 24
  hexadecimal digits is rejected by the ObjectId cast; any other id finds nothing.
\<close>

definition store_of :: "coffee \<Rightarrow> store" where
  "store_of c =
     \<lparr>coffees = (\<lambda>i. if i = coffee_id c then Doc c
                     else if objectid_format i then Null else CastError),
      users = (\<lambda>u. if u = ann then Doc \<lparr>user_name = ''Ann'', user_avatar = ''ann.png''\<rparr>
                   else if u = bob then Doc \<lparr>user_name = ''Bob'', user_avatar = ''bob.png''\<rparr>
                   else if objectid_format u then Null else CastError)\<rparr>"

text \<open>A field sent in the body of the request only, and one sent in the query string only.\<close>

definition sent_in_body :: "jsval \<Rightarrow> field_values" where
  "sent_in_body v =
     \<lparr>in_body = v, in_cookies = JUndefined, in_headers = JUndefined, in_params = JUndefined,
      in_query = JUndefined\<rparr>"

definition sent_in_query :: "jsval \<Rightarrow> field_values" where
  "sent_in_query v =
     \<lparr>in_body = JUndefined, in_cookies = JUndefined, in_headers = JUndefined,
      in_params = JUndefined, in_query = v\<rparr>"

text \<open>
  A store query for the examples: it throws on a sort object that holds a member of
  \<open>Object.prototype\<close> and yields the two records otherwise.
\<close>

definition is_inherited :: "entry \<Rightarrow> bool" where
  "is_inherited p = (case p of Inherited _ \<Rightarrow> True | _ \<Rightarrow> False)"

definition sample_find_sort :: "entry \<times> entry \<Rightarrow> unit + coffee list" where
  "sample_find_sort obj =
     (if is_inherited (fst obj) \<or> is_inherited (snd obj) then Inl ()
      else Inr [rated_shop, new_shop])"

section \<open>Facts about the rounding to doubles\<close>

text \<open>
  The exponent is the right one, and a rounded value is a multiple of the spacing of the
  doubles at that exponent, at most half a spacing away from the exact value.
\<close>

lemma pow2_powi: "pow2 e = 2 powi e"
  by (simp add: pow2_def power_int_def power_one_over inverse_eq_divide)

lemma pow2_pos: "0 < pow2 e"
  by (simp add: pow2_def)

lemma pow2_diff: "pow2 (m - n) = pow2 m / pow2 n"
  by (simp add: pow2_powi power_int_diff)

lemma floor_log2_bounds:
  assumes "0 < a"
  shows "pow2 (floor_log2 a) \<le> a \<and> a < pow2 (floor_log2 a + 1)"
proof -
  obtain p d where pd: "quotient_of a = (p, d)"
    by fastforce
  then have d: "0 < d" and a: "a = of_int p / of_int d"
    by (simp_all add: quotient_of_denom_pos quotient_of_div)
  from assms a d have p: "0 < p"
    by (simp add: zero_less_divide_iff)
  have bp: "1 \<le> bitlen p" and bd: "1 \<le> bitlen d"
    using p d by (simp_all add: bitlen_alt_def)
  have bounds: "(of_int x :: rat) < pow2 (bitlen x) \<and> pow2 (bitlen x - 1) \<le> of_int x"
    if x: "0 < x" for x :: int
  proof -
    have b: "1 \<le> bitlen x"
      using x by (simp add: bitlen_alt_def)
    from bitlen_bounds [OF x]
    have "(of_int x :: rat) < of_int (2 ^ nat (bitlen x))"
      and "(of_int (2 ^ nat (bitlen x - 1)) :: rat) \<le> of_int x"
      by (simp_all only: of_int_less_iff of_int_le_iff)
    then show ?thesis
      using b by (simp add: pow2_def)
  qed
  note pu = bounds [OF p, THEN conjunct1] and pl = bounds [OF p, THEN conjunct2]
    and du = bounds [OF d, THEN conjunct1] and dl = bounds [OF d, THEN conjunct2]
  have "a < pow2 (bitlen p) / pow2 (bitlen d - 1)"
    unfolding a using pu dl p pow2_pos [of "bitlen d - 1"]
    by (intro frac_less) simp_all
  then have upper: "a < pow2 (bitlen p - bitlen d + 1)"
    using pow2_diff [of "bitlen p" "bitlen d - 1"] by (simp add: algebra_simps)
  have "pow2 (bitlen p - 1) / pow2 (bitlen d) < a"
    unfolding a using pl du d pow2_pos [of "bitlen p - 1"]
    by (intro frac_less2) simp_all
  then have lower: "pow2 (bitlen p - bitlen d - 1) < a"
    using pow2_diff [of "bitlen p - 1" "bitlen d"] by (simp add: algebra_simps)
  show ?thesis
  proof (cases "pow2 (bitlen p - bitlen d) \<le> a")
    case True
    then show ?thesis using upper pd by (simp add: floor_log2_def)
  next
    case False
    then show ?thesis using lower pd by (simp add: floor_log2_def)
  qed
qed


lemma round_half_even_nearest: "\<bar>of_int (round_half_even x) - x\<bar> \<le> 1 / 2"
proof -
  define r where "r = x - of_int \<lfloor>x\<rfloor>"
  have r: "0 \<le> r" "r < 1"
    unfolding r_def by linarith+
  have x: "x = of_int \<lfloor>x\<rfloor> + r"
    by (simp add: r_def)
  have "\<bar>of_int (round_half_even x) - (of_int \<lfloor>x\<rfloor> + r)\<bar> \<le> 1 / 2"
    using r unfolding round_half_even_def Let_def r_def [symmetric]
    by (simp add: abs_if)
  with x show ?thesis by simp
qed

lemma round_double_nearest:
  assumes "round_double q = Fin r"
  shows "\<exists>m. r = of_int m * pow2 (max (floor_log2 \<bar>q\<bar>) (- 1022) - 52)
           \<and> \<bar>r - q\<bar> \<le> pow2 (max (floor_log2 \<bar>q\<bar>) (- 1022) - 52) / 2"
proof (cases "q = 0")
  case True
  with assms have "r = 0" by (simp add: round_double_def)
  with True show ?thesis
    using pow2_pos [of "max (floor_log2 \<bar>q\<bar>) (- 1022) - 52"]
    by (intro exI [of _ 0]) simp
next
  case False
  define u where "u = pow2 (max (floor_log2 \<bar>q\<bar>) (- 1022) - 52)"
  define m where "m = round_half_even (\<bar>q\<bar> / u)"
  have u: "0 < u"
    by (simp add: u_def pow2_pos)
  have "\<bar>of_int m - \<bar>q\<bar> / u\<bar> \<le> 1 / 2"
    unfolding m_def by (rule round_half_even_nearest)
  then have "\<bar>of_int m - \<bar>q\<bar> / u\<bar> * u \<le> 1 / 2 * u"
    using u by (intro mult_right_mono) simp_all
  moreover have "\<bar>of_int m - \<bar>q\<bar> / u\<bar> * u = \<bar>(of_int m - \<bar>q\<bar> / u) * u\<bar>"
    using u by (simp add: abs_mult)
  moreover have "(of_int m - \<bar>q\<bar> / u) * u = of_int m * u - \<bar>q\<bar>"
    using u by (simp add: left_diff_distrib)
  ultimately have near: "\<bar>of_int m * u - \<bar>q\<bar>\<bar> \<le> u / 2"
    by simp
  from assms False have r: "r = (if 0 < q then of_int m * u else - (of_int m * u))"
    by (auto simp: round_double_def Let_def u_def m_def split: if_splits)
  show ?thesis
  proof (cases "0 < q")
    case True
    with r near show ?thesis
      unfolding u_def [symmetric] by (intro exI [of _ m]) simp
  next
    case neg: False
    with False have "q < 0" by simp
    with r near neg show ?thesis
      unfolding u_def [symmetric] by (intro exI [of _ "- m"]) (simp add: abs_if split: if_splits)
  qed
qed

section \<open>Facts about the array operations and the sample data\<close>

lemma indexOf_split:
  "x \<notin> set xs \<Longrightarrow> indexOf (xs @ x # ys) x = int (length xs)"
  by (induction xs) (auto simp: Let_def)

lemma splice_one: "splice_js (int (length xs)) (Suc 0) (xs @ y # ys) = xs @ ys"
  by (simp add: splice_js_def Let_def min_def)

lemma fmt_shop: "objectid_format shop_id"
  by code_simp

lemma fmt_other: "objectid_format other_id"
  by code_simp

lemma fmt_abc: "\<not> objectid_format ''abc''"
  by code_simp

lemma ann_bob: "ann \<noteq> bob"
  by (simp add: ann_def bob_def)

lemma rated_found: "coffees (store_of rated_shop) shop_id = Doc rated_shop"
  by (simp add: store_of_def rated_shop_def)

lemma new_found: "coffees (store_of new_shop) shop_id = Doc new_shop"
  by (simp add: store_of_def new_shop_def)

lemma rated_comments: "comments rated_shop = Some [bob_comment, ann_comment]"
  by (simp add: rated_shop_def)

lemma comment_ids: "distinct (map comment_id [bob_comment, ann_comment])"
  by (simp add: bob_comment_def ann_comment_def)

lemma ann_user: "users (store_of rated_shop) ann = Doc \<lparr>user_name = ''Ann'', user_avatar = ''ann.png''\<rparr>"
  by (simp add: store_of_def)

section \<open>Likes\<close>

lemma filter_user_empty:
  "(length (filter (\<lambda>l. like_user l = uid) ls) = 0) = (uid \<notin> like_user ` set ls)"
  by (induction ls) auto

lemma first_like_split:
  assumes "uid \<in> like_user ` set ls"
  shows "\<exists>xs l ys. ls = xs @ l # ys \<and> like_user l = uid \<and> uid \<notin> like_user ` set xs"
proof -
  from assms have "\<exists>l \<in> set ls. like_user l = uid" by auto
  from split_list_first_prop [OF this]
  obtain xs l ys where "ls = xs @ l # ys" "like_user l = uid"
      "\<forall>y \<in> set xs. like_user y \<noteq> uid"
    by blast
  then have "ls = xs @ l # ys \<and> like_user l = uid \<and> uid \<notin> like_user ` set xs"
    by auto
  then show ?thesis by blast
qed

lemma unlike_absent:
  assumes "coffees st pid = Doc post" and "uid \<notin> like_user ` set (likes post)"
  shows "unlike_post st pid uid =
           (\<lparr>status = 400, body = JsonMsg ''Coffee has not yet been liked''\<rparr>, st)"
proof -
  have "length (filter (\<lambda>l. like_user l = uid) (likes post)) = 0"
    using assms(2) filter_user_empty [of uid "likes post"] by blast
  then show ?thesis
    using assms(1) by (simp add: unlike_post_def)
qed

lemma unlike_found:
  assumes "coffees st pid = Doc post"
    and "likes post = xs @ l # ys" and "like_user l = uid" and "uid \<notin> like_user ` set xs"
  shows "unlike_post st pid uid =
           (json (JsonLikes (xs @ ys)), save st (post\<lparr>likes := xs @ ys\<rparr>))"
proof -
  have idx: "indexOf (map like_user (likes post)) uid = int (length xs)"
    using assms(2,3,4) indexOf_split [of uid "map like_user xs" "map like_user ys"] by simp
  have "uid \<in> like_user ` set (likes post)"
    using assms(2,3) by auto
  then have ne: "length (filter (\<lambda>l. like_user l = uid) (likes post)) \<noteq> 0"
    using filter_user_empty [of uid "likes post"] by blast
  have sp: "splice_js (int (length xs)) (Suc 0) (likes post) = xs @ ys"
    by (simp only: assms(2) splice_one)
  have "unlike_post st pid uid =
      (json (JsonLikes (likes (post\<lparr>likes := splice_js (int (length xs)) (Suc 0) (likes post)\<rparr>))),
       save st (post\<lparr>likes := splice_js (int (length xs)) (Suc 0) (likes post)\<rparr>))"
    unfolding unlike_post_def Let_def using assms(1) ne idx by simp
  then show ?thesis
    by (simp add: sp)
qed

lemma like_present:
  assumes "coffees st pid = Doc post" and "uid \<in> like_user ` set (likes post)"
  shows "like_post st pid uid =
           (\<lparr>status = 400, body = JsonMsg ''Coffee already liked''\<rparr>, st)"
proof -
  have "length (filter (\<lambda>l. like_user l = uid) (likes post)) \<noteq> 0"
    using assms(2) filter_user_empty [of uid "likes post"] by blast
  then show ?thesis
    using assms(1) by (simp add: like_post_def)
qed

lemma like_absent:
  assumes "coffees st pid = Doc post" and "uid \<notin> like_user ` set (likes post)"
  shows "like_post st pid uid =
           (json (JsonLikes (\<lparr>like_user = uid\<rparr> # likes post)),
            save st (post\<lparr>likes := \<lparr>like_user = uid\<rparr> # likes post\<rparr>))"
proof -
  have "length (filter (\<lambda>l. like_user l = uid) (likes post)) = 0"
    using assms(2) filter_user_empty [of uid "likes post"] by blast
  then show ?thesis
    using assms(1) by (simp add: like_post_def Let_def)
qed

lemma like_step:
  assumes "coffees st pid = Doc post" "coffee_id post = pid"
    "length (filter (\<lambda>l. like_user l = uid) (likes post)) \<le> 1"
  shows "\<exists>post'. coffees (snd (like_post st pid uid)) pid = Doc post' \<and> coffee_id post' = pid
           \<and> length (filter (\<lambda>l. like_user l = uid) (likes post')) \<le> 1
           \<and> (distinct (map like_user (likes post)) \<longrightarrow> distinct (map like_user (likes post')))"
proof (cases "uid \<in> like_user ` set (likes post)")
  case True
  then show ?thesis using assms like_present [OF assms(1) True] by simp
next
  case False
  have "filter (\<lambda>l. like_user l = uid) (likes post) = []"
    using False by (auto simp: filter_empty_conv)
  then show ?thesis
    using assms(2) False like_absent [OF assms(1) False]
    by (simp add: save_def)
qed

lemma unlike_step:
  assumes "coffees st pid = Doc post" "coffee_id post = pid"
    "length (filter (\<lambda>l. like_user l = uid) (likes post)) \<le> 1"
  shows "\<exists>post'. coffees (snd (unlike_post st pid uid)) pid = Doc post' \<and> coffee_id post' = pid
           \<and> length (filter (\<lambda>l. like_user l = uid) (likes post')) \<le> 1
           \<and> (distinct (map like_user (likes post)) \<longrightarrow> distinct (map like_user (likes post')))"
proof (cases "uid \<in> like_user ` set (likes post)")
  case False
  then show ?thesis using assms unlike_absent [OF assms(1) False] by simp
next
  case True
  then obtain xs l ys where sp: "likes post = xs @ l # ys" "like_user l = uid"
      "uid \<notin> like_user ` set xs"
    using first_like_split by blast
  have "length (filter (\<lambda>l. like_user l = uid) (xs @ ys)) \<le> 1"
    using assms(3) sp by simp
  moreover have "distinct (map like_user (likes post)) \<longrightarrow> distinct (map like_user (xs @ ys))"
    using sp by simp
  ultimately show ?thesis
    using assms(2) unlike_found [OF assms(1) sp]
    by (simp add: save_def)
qed

lemma run_ops_keeps:
  assumes "coffees st pid = Doc post" "coffee_id post = pid"
    "length (filter (\<lambda>l. like_user l = uid) (likes post)) \<le> 1"
  shows "\<exists>post'. coffees (run_ops st pid uid ops) pid = Doc post' \<and> coffee_id post' = pid
           \<and> length (filter (\<lambda>l. like_user l = uid) (likes post')) \<le> 1
           \<and> (distinct (map like_user (likes post)) \<longrightarrow> distinct (map like_user (likes post')))"
  using assms
proof (induction ops arbitrary: st post)
  case Nil
  then show ?case by simp
next
  case (Cons op ops)
  have "\<exists>p. coffees (snd (case op of Like \<Rightarrow> like_post st pid uid | Unlike \<Rightarrow> unlike_post st pid uid)) pid = Doc p
          \<and> coffee_id p = pid
          \<and> length (filter (\<lambda>l. like_user l = uid) (likes p)) \<le> 1
          \<and> (distinct (map like_user (likes post)) \<longrightarrow> distinct (map like_user (likes p)))"
    using like_step [OF Cons.prems] unlike_step [OF Cons.prems] by (cases op) simp_all
  then obtain p where p: "coffees (snd (case op of Like \<Rightarrow> like_post st pid uid | Unlike \<Rightarrow> unlike_post st pid uid)) pid = Doc p"
      "coffee_id p = pid" "length (filter (\<lambda>l. like_user l = uid) (likes p)) \<le> 1"
      "distinct (map like_user (likes post)) \<longrightarrow> distinct (map like_user (likes p))"
    by blast
  from Cons.IH [OF p(1,2,3)] p(4) show ?case
    by (cases op) auto
qed

text \<open>
  C4. The record is in the store under its own id and holds the user at most once in
  \<open>likes\<close> (invariant I1 for that user). Then, after every prefix of every sequence of like
  and unlike requests by that user, the record is still there and still holds the user at
  most once; and when no user at all occurred twice before, none does after. A like by a user who is already in \<open>likes\<close> is answered with the conflict
  status 400 and leaves the store as it was; a like by a user who is not in \<open>likes\<close> puts
  the user in front of the list, answers with the new list and saves the record.
\<close>

theorem like_unlike_at_most_once:
  assumes "coffees st pid = Doc post" and "coffee_id post = pid"
    and "length (filter (\<lambda>l. like_user l = uid) (likes post)) \<le> 1"
  shows "(\<forall>n. \<exists>post'. coffees (run_ops st pid uid (take n ops)) pid = Doc post'
            \<and> length (filter (\<lambda>l. like_user l = uid) (likes post')) \<le> 1
            \<and> (distinct (map like_user (likes post)) \<longrightarrow>
                  distinct (map like_user (likes post'))))
       \<and> (uid \<in> like_user ` set (likes post) \<longrightarrow>
            ConflictError (fst (like_post st pid uid)) \<and> snd (like_post st pid uid) = st)
       \<and> (uid \<notin> like_user ` set (likes post) \<longrightarrow>
            like_post st pid uid =
              (json (JsonLikes (\<lparr>like_user = uid\<rparr> # likes post)),
               save st (post\<lparr>likes := \<lparr>like_user = uid\<rparr> # likes post\<rparr>)))"
proof (intro conjI allI impI)
  fix n
  from run_ops_keeps [OF assms, of "take n ops"]
  show "\<exists>post'. coffees (run_ops st pid uid (take n ops)) pid = Doc post'
            \<and> length (filter (\<lambda>l. like_user l = uid) (likes post')) \<le> 1
            \<and> (distinct (map like_user (likes post)) \<longrightarrow>
                  distinct (map like_user (likes post')))"
    by blast
next
  assume "uid \<in> like_user ` set (likes post)"
  from like_present [OF assms(1) this]
  show "ConflictError (fst (like_post st pid uid))" by (simp add: ConflictError_def)
next
  assume "uid \<in> like_user ` set (likes post)"
  from like_present [OF assms(1) this]
  show "snd (like_post st pid uid) = st" by simp
next
  assume "uid \<notin> like_user ` set (likes post)"
  from like_absent [OF assms(1) this]
  show "like_post st pid uid =
              (json (JsonLikes (\<lparr>like_user = uid\<rparr> # likes post)),
               save st (post\<lparr>likes := \<lparr>like_user = uid\<rparr> # likes post\<rparr>))" .
qed

theorem like_unlike_at_most_once_witness:
  "coffees (store_of rated_shop) shop_id = Doc rated_shop
   \<and> coffee_id rated_shop = shop_id
   \<and> length (filter (\<lambda>l. like_user l = bob) (likes rated_shop)) \<le> 1
   \<and> length (filter (\<lambda>l. like_user l = ann) (likes rated_shop)) \<le> 1
   \<and> distinct (map like_user (likes rated_shop))
   \<and> (\<exists>post'. coffees (run_ops (store_of rated_shop) shop_id bob
                   (take 3 [Like, Unlike, Unlike, Like])) shop_id = Doc post'
          \<and> length (filter (\<lambda>l. like_user l = bob) (likes post')) \<le> 1
          \<and> distinct (map like_user (likes post')))
   \<and> bob \<in> like_user ` set (likes rated_shop)
   \<and> ConflictError (fst (like_post (store_of rated_shop) shop_id bob))
   \<and> ann \<notin> like_user ` set (likes rated_shop)
   \<and> like_post (store_of rated_shop) shop_id ann =
       (json (JsonLikes [\<lparr>like_user = ann\<rparr>, \<lparr>like_user = bob\<rparr>]),
        save (store_of rated_shop)
          (rated_shop\<lparr>likes := [\<lparr>like_user = ann\<rparr>, \<lparr>like_user = bob\<rparr>]\<rparr>))"
proof -
  have h2: "coffee_id rated_shop = shop_id"
    by (simp add: rated_shop_def)
  have hb: "length (filter (\<lambda>l. like_user l = bob) (likes rated_shop)) \<le> 1"
    by (simp add: rated_shop_def)
  have ha: "length (filter (\<lambda>l. like_user l = ann) (likes rated_shop)) \<le> 1"
    by (simp add: rated_shop_def)
  have inb: "bob \<in> like_user ` set (likes rated_shop)"
    by (simp add: rated_shop_def)
  have outa: "ann \<notin> like_user ` set (likes rated_shop)"
    using ann_bob by (simp add: rated_shop_def)
  have l: "likes rated_shop = [\<lparr>like_user = bob\<rparr>]"
    by (simp add: rated_shop_def)
  have dl: "distinct (map like_user (likes rated_shop))"
    by (simp add: rated_shop_def)
  from like_unlike_at_most_once [OF rated_found h2 hb, of "[Like, Unlike, Unlike, Like]"]
  have seq: "\<forall>n. \<exists>post'. coffees (run_ops (store_of rated_shop) shop_id bob
                   (take n [Like, Unlike, Unlike, Like])) shop_id = Doc post'
          \<and> length (filter (\<lambda>l. like_user l = bob) (likes post')) \<le> 1
          \<and> distinct (map like_user (likes post'))"
    and con: "ConflictError (fst (like_post (store_of rated_shop) shop_id bob))"
    using inb dl by blast+
  from like_unlike_at_most_once [OF rated_found h2 ha, of "[]"] outa
  have "like_post (store_of rated_shop) shop_id ann =
       (json (JsonLikes (\<lparr>like_user = ann\<rparr> # likes rated_shop)),
        save (store_of rated_shop)
          (rated_shop\<lparr>likes := \<lparr>like_user = ann\<rparr> # likes rated_shop\<rparr>))"
    by blast
  then have pre: "like_post (store_of rated_shop) shop_id ann =
       (json (JsonLikes [\<lparr>like_user = ann\<rparr>, \<lparr>like_user = bob\<rparr>]),
        save (store_of rated_shop)
          (rated_shop\<lparr>likes := [\<lparr>like_user = ann\<rparr>, \<lparr>like_user = bob\<rparr>]\<rparr>))"
    by (simp only: l)
  from seq have three: "\<exists>post'. coffees (run_ops (store_of rated_shop) shop_id bob
                   (take 3 [Like, Unlike, Unlike, Like])) shop_id = Doc post'
          \<and> length (filter (\<lambda>l. like_user l = bob) (likes post')) \<le> 1
          \<and> distinct (map like_user (likes post'))"
    by (rule spec)
  from rated_found h2 hb ha dl three inb con outa pre show ?thesis
    by (intro conjI)
qed

text \<open>
  C8. For a record in the store: an unlike by a user who is not in \<open>likes\<close> is answered
  with the conflict status 400 and leaves the store as it was. Otherwise \<open>likes\<close> splits
  around the first entry of that user, the handler answers with the list without that
  entry, all other entries in their order, and saves it; when no user occurs twice in
  \<open>likes\<close> (I1), the user does not occur behind the removed entry either.
\<close>

theorem unlike_spec:
  assumes "coffees st pid = Doc post"
  shows "(uid \<notin> like_user ` set (likes post) \<longrightarrow>
            ConflictError (fst (unlike_post st pid uid)) \<and> snd (unlike_post st pid uid) = st)
       \<and> (uid \<in> like_user ` set (likes post) \<longrightarrow>
            (\<exists>xs l ys. likes post = xs @ l # ys \<and> like_user l = uid
               \<and> uid \<notin> like_user ` set xs
               \<and> (distinct (map like_user (likes post)) \<longrightarrow> uid \<notin> like_user ` set ys)
               \<and> unlike_post st pid uid =
                   (json (JsonLikes (xs @ ys)), save st (post\<lparr>likes := xs @ ys\<rparr>))))"
proof -
  have absent: "ConflictError (fst (unlike_post st pid uid)) \<and> snd (unlike_post st pid uid) = st"
    if "uid \<notin> like_user ` set (likes post)"
    using unlike_absent [OF assms that] by (simp add: ConflictError_def)
  have present: "\<exists>xs l ys. likes post = xs @ l # ys \<and> like_user l = uid
               \<and> uid \<notin> like_user ` set xs
               \<and> (distinct (map like_user (likes post)) \<longrightarrow> uid \<notin> like_user ` set ys)
               \<and> unlike_post st pid uid =
                   (json (JsonLikes (xs @ ys)), save st (post\<lparr>likes := xs @ ys\<rparr>))"
    if "uid \<in> like_user ` set (likes post)"
  proof -
    from that obtain xs l ys where sp: "likes post = xs @ l # ys" "like_user l = uid"
        "uid \<notin> like_user ` set xs"
      using first_like_split by blast
    have "distinct (map like_user (likes post)) \<longrightarrow> uid \<notin> like_user ` set ys"
      using sp by auto
    with sp unlike_found [OF assms sp] show ?thesis by blast
  qed
  from absent present show ?thesis by blast
qed

theorem unlike_spec_witness:
  "coffees (store_of rated_shop) shop_id = Doc rated_shop
   \<and> ann \<notin> like_user ` set (likes rated_shop)
   \<and> ConflictError (fst (unlike_post (store_of rated_shop) shop_id ann))
   \<and> snd (unlike_post (store_of rated_shop) shop_id ann) = store_of rated_shop
   \<and> bob \<in> like_user ` set (likes rated_shop)
   \<and> distinct (map like_user (likes rated_shop))
   \<and> unlike_post (store_of rated_shop) shop_id bob =
       (json (JsonLikes []), save (store_of rated_shop) (rated_shop\<lparr>likes := []\<rparr>))"
proof -
  have inb: "bob \<in> like_user ` set (likes rated_shop)"
    by (simp add: rated_shop_def)
  have outa: "ann \<notin> like_user ` set (likes rated_shop)"
    using ann_bob by (simp add: rated_shop_def)
  have l: "likes rated_shop = [\<lparr>like_user = bob\<rparr>]"
    by (simp add: rated_shop_def)
  from unlike_spec [OF rated_found, of ann] outa
  have a: "ConflictError (fst (unlike_post (store_of rated_shop) shop_id ann))
      \<and> snd (unlike_post (store_of rated_shop) shop_id ann) = store_of rated_shop"
    by blast
  from unlike_spec [OF rated_found, of bob] inb
  obtain xs l' ys where sp: "likes rated_shop = xs @ l' # ys"
     and r: "unlike_post (store_of rated_shop) shop_id bob =
       (json (JsonLikes (xs @ ys)), save (store_of rated_shop) (rated_shop\<lparr>likes := xs @ ys\<rparr>))"
    by blast
  from sp l have "xs = [] \<and> ys = []"
    by (simp add: Cons_eq_append_conv)
  with r a rated_found inb outa l show ?thesis by simp
qed

text \<open>
  C9 at an id that matches no record: like and unlike dereference the null result, and the
  answer is 500. Neither handler ever answers 404: the statuses are 200, 400 and 500.
\<close>

theorem like_unlike_missing_record:
  "coffees (store_of new_shop) other_id = Null
   \<and> like_post (store_of new_shop) other_id bob = (server_error, store_of new_shop)
   \<and> unlike_post (store_of new_shop) other_id bob = (server_error, store_of new_shop)
   \<and> status server_error = 500
   \<and> \<not> NotFoundError server_error
   \<and> (\<forall>st pid uid. status (fst (like_post st pid uid)) \<in> {200, 400, 500}
          \<and> status (fst (unlike_post st pid uid)) \<in> {200, 400, 500})"
proof -
  have "coffees (store_of new_shop) other_id = Null"
    using fmt_other by (simp add: store_of_def new_shop_def shop_id_def other_id_def)
  then have "like_post (store_of new_shop) other_id bob = (server_error, store_of new_shop)"
    and "unlike_post (store_of new_shop) other_id bob = (server_error, store_of new_shop)"
    and "coffees (store_of new_shop) other_id = Null"
    by (simp_all add: like_post_def unlike_post_def)
  moreover have "status server_error = 500" and "\<not> NotFoundError server_error"
    by (simp_all add: server_error_def NotFoundError_def)
  moreover have "\<forall>st pid uid. status (fst (like_post st pid uid)) \<in> {200, 400, 500}
          \<and> status (fst (unlike_post st pid uid)) \<in> {200, 400, 500}"
    by (simp add: like_post_def unlike_post_def Let_def server_error_def json_def
        split: found.split)
  ultimately show ?thesis by blast
qed

subsection \<open>Two like requests at the same time\<close>

lemma like_advance_twice:
  "(case like_advance st pid uid Start of
      (t, st1) \<Rightarrow> like_advance st1 pid uid t) =
   (Done (fst (like_post st pid uid)), snd (like_post st pid uid))"
  by (simp add: like_post_def liked_def Let_def split: found.split)










section \<open>Comments\<close>

lemma find_none_ids: "find (\<lambda>c. comment_id c = cid) cs = None \<longleftrightarrow> cid \<notin> comment_id ` set cs"
  by (induction cs) auto

lemma find_unique:
  assumes "distinct (map comment_id cs)" and "c \<in> set cs" and "comment_id c = cid"
  shows "find (\<lambda>c. comment_id c = cid) cs = Some c"
  using assms by (induction cs) (auto simp: image_iff)

lemma filter_unique:
  assumes "distinct (map comment_id (xs @ c # ys))"
  shows "filter (\<lambda>d. comment_id d \<noteq> comment_id c) (xs @ c # ys) = xs @ ys"
proof -
  have "\<forall>d \<in> set xs \<union> set ys. comment_id d \<noteq> comment_id c"
    using assms by (auto simp: image_iff)
  then show ?thesis by (simp add: filter_id_conv)
qed

lemma removeComment_found:
  assumes "coffees st pid = Doc post" and "comments post = Some cs"
  shows "removeComment st pid cid uid =
     (case find (\<lambda>c. comment_id c = cid) cs of
        None \<Rightarrow> (\<lparr>status = 404, body = JsonMsg ''Comment does not exist''\<rparr>, st)
      | Some c \<Rightarrow>
          if comment_user c \<noteq> uid
          then (\<lparr>status = 401, body = JsonMsg ''User not authorized''\<rparr>, st)
          else (json (JsonComments (filter (\<lambda>c. comment_id c \<noteq> cid) cs)),
                save st (post\<lparr>comments := Some (filter (\<lambda>c. comment_id c \<noteq> cid) cs)\<rparr>)))"
  using assms by (simp add: removeComment_def Let_def split: option.split)

text \<open>
  C6. For a record in the store whose comments carry pairwise distinct ids (I4): when no
  comment has the requested id, the handler answers 404 and leaves the store as it was;
  when the comment with that id was written by another user than the caller, it answers
  401 and leaves the store as it was; when it was written by the caller, the comments
  split around that comment, and the handler answers with, and saves, the list without
  it: every other comment is kept, in the same order.
\<close>

theorem removeComment_spec:
  assumes "coffees st pid = Doc post" and "comments post = Some cs"
    and "distinct (map comment_id cs)"
  shows "(cid \<notin> comment_id ` set cs \<longrightarrow>
            NotFoundError (fst (removeComment st pid cid uid))
            \<and> snd (removeComment st pid cid uid) = st)
       \<and> (\<forall>c \<in> set cs. comment_id c = cid \<and> comment_user c \<noteq> uid \<longrightarrow>
            AuthorizationError (fst (removeComment st pid cid uid))
            \<and> snd (removeComment st pid cid uid) = st)
       \<and> (\<forall>c \<in> set cs. comment_id c = cid \<and> comment_user c = uid \<longrightarrow>
            (\<exists>xs ys. cs = xs @ c # ys
               \<and> removeComment st pid cid uid =
                   (json (JsonComments (xs @ ys)), save st (post\<lparr>comments := Some (xs @ ys)\<rparr>))))"
proof (intro conjI ballI impI)
  assume "cid \<notin> comment_id ` set cs"
  then have "find (\<lambda>c. comment_id c = cid) cs = None"
    using find_none_ids [of cid cs] by blast
  then show "NotFoundError (fst (removeComment st pid cid uid))"
    and "snd (removeComment st pid cid uid) = st"
    by (simp_all add: removeComment_found [OF assms(1,2)] NotFoundError_def)
next
  fix c assume c: "c \<in> set cs" "comment_id c = cid \<and> comment_user c \<noteq> uid"
  then have "find (\<lambda>c. comment_id c = cid) cs = Some c"
    using find_unique [OF assms(3)] by blast
  then show "AuthorizationError (fst (removeComment st pid cid uid))"
    and "snd (removeComment st pid cid uid) = st"
    using c(2) by (simp_all add: removeComment_found [OF assms(1,2)] AuthorizationError_def)
next
  fix c assume c: "c \<in> set cs" "comment_id c = cid \<and> comment_user c = uid"
  then have f: "find (\<lambda>c. comment_id c = cid) cs = Some c"
    using find_unique [OF assms(3)] by blast
  from c(1) obtain xs ys where sp: "cs = xs @ c # ys"
    by (auto dest: split_list)
  have "filter (\<lambda>d. comment_id d \<noteq> cid) cs = xs @ ys"
    using filter_unique [of xs c ys] assms(3) sp c(2) by simp
  then have "removeComment st pid cid uid =
      (json (JsonComments (xs @ ys)), save st (post\<lparr>comments := Some (xs @ ys)\<rparr>))"
    using f c(2) by (simp add: removeComment_found [OF assms(1,2)])
  with sp show "\<exists>xs ys. cs = xs @ c # ys
               \<and> removeComment st pid cid uid =
                   (json (JsonComments (xs @ ys)), save st (post\<lparr>comments := Some (xs @ ys)\<rparr>))"
    by blast
qed

theorem removeComment_spec_witness:
  "coffees (store_of rated_shop) shop_id = Doc rated_shop
   \<and> comments rated_shop = Some [bob_comment, ann_comment]
   \<and> distinct (map comment_id [bob_comment, ann_comment])
   \<and> other_id \<notin> comment_id ` set [bob_comment, ann_comment]
   \<and> NotFoundError (fst (removeComment (store_of rated_shop) shop_id other_id bob))
   \<and> ann_comment \<in> set [bob_comment, ann_comment]
   \<and> comment_user ann_comment \<noteq> bob
   \<and> AuthorizationError
        (fst (removeComment (store_of rated_shop) shop_id (comment_id ann_comment) bob))
   \<and> bob_comment \<in> set [bob_comment, ann_comment]
   \<and> comment_user bob_comment = bob
   \<and> removeComment (store_of rated_shop) shop_id (comment_id bob_comment) bob =
       (json (JsonComments [ann_comment]),
        save (store_of rated_shop) (rated_shop\<lparr>comments := Some [ann_comment]\<rparr>))"
proof -
  note spec = removeComment_spec [OF rated_found rated_comments comment_ids]
  have out: "other_id \<notin> comment_id ` set [bob_comment, ann_comment]"
    by (simp add: other_id_def bob_comment_def ann_comment_def)
  have ina: "ann_comment \<in> set [bob_comment, ann_comment]"
    and inb: "bob_comment \<in> set [bob_comment, ann_comment]"
    by simp_all
  have ua: "comment_user ann_comment \<noteq> bob"
    using ann_bob by (simp add: ann_comment_def)
  have ub: "comment_user bob_comment = bob"
    by (simp add: bob_comment_def)
  have ne: "ann_comment \<noteq> bob_comment"
    by (simp add: bob_comment_def ann_comment_def)
  from spec [of other_id bob] out
  have nf: "NotFoundError (fst (removeComment (store_of rated_shop) shop_id other_id bob))"
    by blast
  from spec [of "comment_id ann_comment" bob] ina ua
  have au: "AuthorizationError
        (fst (removeComment (store_of rated_shop) shop_id (comment_id ann_comment) bob))"
    by blast
  from spec [of "comment_id bob_comment" bob] inb ub
  obtain xs ys where sp: "[bob_comment, ann_comment] = xs @ bob_comment # ys"
    and r: "removeComment (store_of rated_shop) shop_id (comment_id bob_comment) bob =
       (json (JsonComments (xs @ ys)),
        save (store_of rated_shop) (rated_shop\<lparr>comments := Some (xs @ ys)\<rparr>))"
    by blast
  from sp ne have "xs = [] \<and> ys = [ann_comment]"
    by (auto simp: Cons_eq_append_conv)
  with r have rm: "removeComment (store_of rated_shop) shop_id (comment_id bob_comment) bob =
       (json (JsonComments [ann_comment]),
        save (store_of rated_shop) (rated_shop\<lparr>comments := Some [ann_comment]\<rparr>))"
    by simp
  from rated_found rated_comments comment_ids out nf ina ua au inb ub rm show ?thesis
    by (intro conjI)
qed

lemma body_undefined_if_absent:
  assumes "list_all (\<lambda>v. v = JUndefined) (locations f)"
  shows "in_body f = JUndefined"
  using assms by (simp add: locations_def)

lemma field_errors_empty: "field_errors param f = [] \<longleftrightarrow> \<not> absent_or_empty f"
proof (cases "filter (\<lambda>v. v \<noteq> JUndefined) (locations f) = []")
  case True
  then have all: "list_all (\<lambda>v. v = JUndefined) (locations f)"
    by (simp add: filter_empty_conv list_all_iff)
  then have "in_body f = JUndefined"
    by (rule body_undefined_if_absent)
  then have "field_errors param f \<noteq> []"
    using True by (simp add: field_errors_def selected_def isEmpty_def)
  with all show ?thesis
    by (simp add: absent_or_empty_def)
next
  case False
  then have some: "\<not> list_all (\<lambda>v. v = JUndefined) (locations f)"
    by (auto simp: filter_empty_conv list_all_iff)
  have "field_errors param f = [] \<longleftrightarrow>
      filter isEmpty (filter (\<lambda>v. v \<noteq> JUndefined) (locations f)) = []"
    using False by (simp add: field_errors_def selected_def)
  also have "\<dots> \<longleftrightarrow> \<not> list_ex (\<lambda>v. v \<noteq> JUndefined \<and> isEmpty v) (locations f)"
    by (auto simp: filter_empty_conv list_ex_iff)
  finally show ?thesis
    using some by (simp add: absent_or_empty_def)
qed

lemma validation_passes:
  "validationResult tx review = [] \<longleftrightarrow> \<not> absent_or_empty tx \<and> \<not> absent_or_empty review"
  by (simp add: validationResult_def field_errors_empty)

text \<open>
  C7, as the handler has it. The validators test only that \<open>text\<close> and \<open>review\<close> are
  not empty, and they look in every place of the request: when one of the two is held by
  no place, or is empty in a place that holds it, the answer is the validation status 400
  and the store is as it was. Otherwise, when the author and the record are found, the new
  comment is put in front of the comments, which are returned and saved; it carries the
  text and the review of the body, undefined when the field came by another place, and the
  author's name and avatar as they are in the store at that moment. Whether \<open>review\<close>
  reads as a number plays no part.
\<close>

theorem addComment_spec:
  "(absent_or_empty tx \<or> absent_or_empty review \<longrightarrow>
      ValidationError (fst (addComment st pid uid newid tx review))
      \<and> snd (addComment st pid uid newid tx review) = st)
   \<and> (\<not> absent_or_empty tx \<and> \<not> absent_or_empty review \<and> users st uid = Doc u
        \<and> coffees st pid = Doc c \<and> comments c = Some cs \<longrightarrow>
      addComment st pid uid newid tx review =
        (json (JsonComments
           (\<lparr>comment_id = newid, comment_text = in_body tx, comment_review = in_body review,
             comment_name = user_name u, comment_avatar = user_avatar u,
             comment_user = uid\<rparr> # cs)),
         save st (c\<lparr>comments := Some
           (\<lparr>comment_id = newid, comment_text = in_body tx, comment_review = in_body review,
             comment_name = user_name u, comment_avatar = user_avatar u,
             comment_user = uid\<rparr> # cs)\<rparr>)))"
proof (intro conjI impI)
  assume "absent_or_empty tx \<or> absent_or_empty review"
  then have "validationResult tx review \<noteq> []"
    using validation_passes [of tx review] by blast
  then show "ValidationError (fst (addComment st pid uid newid tx review))"
    and "snd (addComment st pid uid newid tx review) = st"
    by (simp_all add: addComment_def Let_def ValidationError_def)
next
  assume a: "\<not> absent_or_empty tx \<and> \<not> absent_or_empty review \<and> users st uid = Doc u
        \<and> coffees st pid = Doc c \<and> comments c = Some cs"
  then have "validationResult tx review = []"
    using validation_passes [of tx review] by blast
  then show "addComment st pid uid newid tx review =
        (json (JsonComments
           (\<lparr>comment_id = newid, comment_text = in_body tx, comment_review = in_body review,
             comment_name = user_name u, comment_avatar = user_avatar u,
             comment_user = uid\<rparr> # cs)),
         save st (c\<lparr>comments := Some
           (\<lparr>comment_id = newid, comment_text = in_body tx, comment_review = in_body review,
             comment_name = user_name u, comment_avatar = user_avatar u,
             comment_user = uid\<rparr> # cs)\<rparr>))"
    using a by (simp add: addComment_def Let_def)
qed

lemma body_nice: "\<not> absent_or_empty (sent_in_body (JStr ''nice''))"
  by (simp add: absent_or_empty_def sent_in_body_def locations_def isEmpty_def)

lemma query_five: "\<not> absent_or_empty (sent_in_query (JStr ''5''))"
  by (simp add: absent_or_empty_def sent_in_query_def locations_def isEmpty_def)

lemma body_blank: "absent_or_empty (sent_in_body (JStr []))"
  by (simp add: absent_or_empty_def sent_in_body_def locations_def isEmpty_def)

theorem addComment_spec_witness:
  "(absent_or_empty (sent_in_body (JStr [])) \<or> absent_or_empty (sent_in_query (JStr ''5'')))
   \<and> ValidationError
        (fst (addComment (store_of rated_shop) shop_id ann other_id
               (sent_in_body (JStr [])) (sent_in_query (JStr ''5''))))
   \<and> snd (addComment (store_of rated_shop) shop_id ann other_id
               (sent_in_body (JStr [])) (sent_in_query (JStr ''5''))) = store_of rated_shop
   \<and> \<not> absent_or_empty (sent_in_body (JStr ''nice''))
   \<and> \<not> absent_or_empty (sent_in_query (JStr ''5''))
   \<and> users (store_of rated_shop) ann = Doc \<lparr>user_name = ''Ann'', user_avatar = ''ann.png''\<rparr>
   \<and> coffees (store_of rated_shop) shop_id = Doc rated_shop
   \<and> comments rated_shop = Some [bob_comment, ann_comment]
   \<and> addComment (store_of rated_shop) shop_id ann other_id
        (sent_in_body (JStr ''nice'')) (sent_in_query (JStr ''5'')) =
       (json (JsonComments
          [\<lparr>comment_id = other_id, comment_text = JStr ''nice'', comment_review = JUndefined,
            comment_name = ''Ann'', comment_avatar = ''ann.png'', comment_user = ann\<rparr>,
           bob_comment, ann_comment]),
        save (store_of rated_shop)
          (rated_shop\<lparr>comments := Some
             [\<lparr>comment_id = other_id, comment_text = JStr ''nice'', comment_review = JUndefined,
               comment_name = ''Ann'', comment_avatar = ''ann.png'', comment_user = ann\<rparr>,
              bob_comment, ann_comment]\<rparr>))"
proof -
  have e: "absent_or_empty (sent_in_body (JStr [])) \<or> absent_or_empty (sent_in_query (JStr ''5''))"
    using body_blank by blast
  from e addComment_spec [where tx = "sent_in_body (JStr [])"
      and review = "sent_in_query (JStr ''5'')"
      and st = "store_of rated_shop" and pid = shop_id and uid = ann and newid = other_id]
  have v: "ValidationError
        (fst (addComment (store_of rated_shop) shop_id ann other_id
               (sent_in_body (JStr [])) (sent_in_query (JStr ''5''))))"
    and u: "snd (addComment (store_of rated_shop) shop_id ann other_id
               (sent_in_body (JStr [])) (sent_in_query (JStr ''5''))) = store_of rated_shop"
    by blast+
  have b1: "in_body (sent_in_body (JStr ''nice'')) = JStr ''nice''"
    and b2: "in_body (sent_in_query (JStr ''5'')) = JUndefined"
    by (simp_all add: sent_in_body_def sent_in_query_def)
  from body_nice query_five ann_user rated_found rated_comments
    addComment_spec [where tx = "sent_in_body (JStr ''nice'')"
      and review = "sent_in_query (JStr ''5'')"
      and st = "store_of rated_shop" and pid = shop_id and uid = ann and newid = other_id
      and u = "\<lparr>user_name = ''Ann'', user_avatar = ''ann.png''\<rparr>" and c = rated_shop
      and cs = "[bob_comment, ann_comment]"]
  have a: "addComment (store_of rated_shop) shop_id ann other_id
        (sent_in_body (JStr ''nice'')) (sent_in_query (JStr ''5'')) =
       (json (JsonComments
          [\<lparr>comment_id = other_id, comment_text = JStr ''nice'', comment_review = JUndefined,
            comment_name = ''Ann'', comment_avatar = ''ann.png'', comment_user = ann\<rparr>,
           bob_comment, ann_comment]),
        save (store_of rated_shop)
          (rated_shop\<lparr>comments := Some
             [\<lparr>comment_id = other_id, comment_text = JStr ''nice'', comment_review = JUndefined,
               comment_name = ''Ann'', comment_avatar = ''ann.png'', comment_user = ann\<rparr>,
              bob_comment, ann_comment]\<rparr>))"
    by (simp add: b1 b2)
  from e v u body_nice query_five ann_user rated_found rated_comments a show ?thesis
    by (intro conjI)
qed

text \<open>
  C7 as stated fails: the review \<open>abc\<close> is not a number, yet the comment is accepted
  and the answer is the new list of comments with status 200.
\<close>

theorem addComment_accepts_non_numeric_review:
  "Number_js sample_runtime (JStr ''abc'') = NaN
   \<and> in_body (sent_in_body (JStr ''abc'')) = JStr ''abc''
   \<and> \<not> ValidationError
        (fst (addComment (store_of new_shop) shop_id ann other_id
               (sent_in_body (JStr ''nice'')) (sent_in_body (JStr ''abc''))))
   \<and> fst (addComment (store_of new_shop) shop_id ann other_id
               (sent_in_body (JStr ''nice'')) (sent_in_body (JStr ''abc''))) =
       json (JsonComments
         [\<lparr>comment_id = other_id, comment_text = JStr ''nice'', comment_review = JStr ''abc'',
           comment_name = ''Ann'', comment_avatar = ''ann.png'', comment_user = ann\<rparr>])"
  by (simp add: Number_js_def sample_runtime_def isEmpty_def addComment_def validationResult_def
      field_errors_def selected_def locations_def sent_in_body_def
      Let_def store_of_def new_shop_def ValidationError_def json_def)

section \<open>Listing\<close>

text \<open>
  C5, as the handler has it. Whatever the sort key is, the list operation never answers
  with the validation status. It hands the store the sort object made of the two table
  entries of the key; when the query yields records, it answers 200 with these records in
  this order, and when the query throws, it answers 500.
\<close>

theorem list_posts_answers_query:
  "\<not> ValidationError (list_posts find_sort sortby)
   \<and> (\<forall>posts. find_sort (label (property_key sortby), labelValue (property_key sortby)) = Inr posts
          \<longrightarrow> list_posts find_sort sortby = json (JsonCoffees posts))
   \<and> (find_sort (label (property_key sortby), labelValue (property_key sortby)) = Inl ()
          \<longrightarrow> list_posts find_sort sortby = server_error)"
  by (simp add: list_posts_def Let_def ValidationError_def server_error_def json_def
      split: sum.split)

lemma bogus_entry: "label ''bogus'' = Undefined \<and> labelValue ''bogus'' = Undefined"
  by (simp add: label_def labelValue_def object_prototype_keys_def)

lemma constructor_entry:
  "label ''constructor'' = Inherited ''constructor''
   \<and> labelValue ''constructor'' = Inherited ''constructor''"
  by (simp add: label_def labelValue_def object_prototype_keys_def)

theorem list_posts_answers_query_witness:
  "sample_find_sort (label (property_key (Some ''bogus'')), labelValue (property_key (Some ''bogus'')))
     = Inr [rated_shop, new_shop]
   \<and> list_posts sample_find_sort (Some ''bogus'') = json (JsonCoffees [rated_shop, new_shop])
   \<and> sample_find_sort (label (property_key (Some ''constructor'')),
                         labelValue (property_key (Some ''constructor''))) = Inl ()
   \<and> list_posts sample_find_sort (Some ''constructor'') = server_error
   \<and> sample_find_sort (label (property_key (Some ''highest'')),
                         labelValue (property_key (Some ''highest''))) = Inr [rated_shop, new_shop]
   \<and> label (property_key (Some ''highest'')) = Value ''averageReview''
   \<and> labelValue (property_key (Some ''highest'')) = Value ''-1''
   \<and> list_posts sample_find_sort (Some ''highest'') = json (JsonCoffees [rated_shop, new_shop])"
proof -
  have q1: "sample_find_sort (label (property_key (Some ''bogus'')),
                labelValue (property_key (Some ''bogus''))) = Inr [rated_shop, new_shop]"
    using bogus_entry by (simp add: property_key_def sample_find_sort_def is_inherited_def)
  have q2: "sample_find_sort (label (property_key (Some ''constructor'')),
                labelValue (property_key (Some ''constructor''))) = Inl ()"
    using constructor_entry by (simp add: property_key_def sample_find_sort_def is_inherited_def)
  have h1: "label (property_key (Some ''highest'')) = Value ''averageReview''"
    and h2: "labelValue (property_key (Some ''highest'')) = Value ''-1''"
    by (simp_all add: property_key_def label_def labelValue_def)
  have q3: "sample_find_sort (label (property_key (Some ''highest'')),
                labelValue (property_key (Some ''highest''))) = Inr [rated_shop, new_shop]"
    by (simp add: h1 h2 sample_find_sort_def is_inherited_def)
  from q1 list_posts_answers_query [of sample_find_sort "Some ''bogus''"]
  have a1: "list_posts sample_find_sort (Some ''bogus'') = json (JsonCoffees [rated_shop, new_shop])"
    by blast
  from q2 list_posts_answers_query [of sample_find_sort "Some ''constructor''"]
  have a2: "list_posts sample_find_sort (Some ''constructor'') = server_error"
    by blast
  from q3 list_posts_answers_query [of sample_find_sort "Some ''highest''"]
  have a3: "list_posts sample_find_sort (Some ''highest'') = json (JsonCoffees [rated_shop, new_shop])"
    by blast
  from q1 a1 q2 a2 q3 h1 h2 a3 show ?thesis
    by (intro conjI)
qed

text \<open>
  C5 as stated fails: \<open>bogus\<close> is none of the four named sort modes, and the list
  operation answers with the records of the store, or with 500 should the query throw; in
  neither case with a validation error.
\<close>

theorem list_posts_unknown_key_succeeds:
  "''bogus'' \<notin> named_sort_modes
   \<and> list_posts (\<lambda>_. Inr [rated_shop, new_shop]) (Some ''bogus'')
       = json (JsonCoffees [rated_shop, new_shop])
   \<and> \<not> ValidationError (list_posts (\<lambda>_. Inr [rated_shop, new_shop]) (Some ''bogus''))
   \<and> list_posts (\<lambda>_. Inl ()) (Some ''bogus'') = server_error
   \<and> \<not> ValidationError (list_posts (\<lambda>_. Inl ()) (Some ''bogus''))"
  by (simp add: named_sort_modes_def list_posts_def Let_def ValidationError_def json_def
      server_error_def)

section \<open>Reading and deleting a record\<close>

text \<open>
  C10. A successful read of a stored record with at least one comment returns and saves
  the record with \<open>averageReview\<close> set to the string that \<open>toFixed(2)\<close> makes of the
  quotient of the summed reviews and their count, sum and quotient being those of doubles;
  this is not a number value. \<open>totalReview\<close> is set to the count, a number. The record is
  the document as the handler assigns it: a setter of the schema, which is not among the
  sources, is not applied. In the example the stored number 0 becomes the string
  \<open>4.50\<close>.
\<close>

theorem getById_average_is_string:
  assumes "coffees st pid = Doc c" and "comments c = Some cs" and "cs \<noteq> []"
    and "status (fst (getById rt st pid)) = 200"
  shows "\<exists>c'. getById rt st pid = (json (JsonCoffee c'), save st c')
           \<and> coffees (snd (getById rt st pid)) (coffee_id c) = Doc c'
           \<and> averageReview c' =
               JStr (toFixed rt 2
                 (js_div (foldl (\<lambda>acc x. js_add acc (Number_js rt (comment_review x))) (Fin 0) cs)
                         (Fin (of_nat (length cs)))))
           \<and> (\<forall>n. averageReview c' \<noteq> JNum n)
           \<and> totalReview c' = JNum (Fin (of_nat (length cs)))"
proof -
  have fmt: "objectid_format pid"
    using assms by (auto simp: getById_def Let_def split: if_splits)
  show ?thesis
    using assms(1,2) fmt
    by (simp add: getById_def Let_def Number_js_def save_def)
qed

lemma rated_average:
  "toFixed sample_runtime 2
     (js_div (foldl (\<lambda>acc x. js_add acc (Number_js sample_runtime (comment_review x))) (Fin 0)
                [bob_comment, ann_comment])
             (Fin (of_nat (length [bob_comment, ann_comment])))) = ''4.50''"
  by code_simp

text \<open>Forty reviews, seven of 5 and thirty-three of 4: the quotient is below 4.175.\<close>

lemma double_quotient_example:
  "toFixed rt 2
     (js_div (foldl js_add (Fin 0) (replicate 7 (Fin 5) @ replicate 33 (Fin 4))) (Fin 40))
     = ''4.17''"
  by code_simp

text \<open>The double that \<open>1e308\<close> denotes, added to itself, is Infinity.\<close>

lemma double_overflow_example:
  "js_add
     (Fin 100000000000000001097906362944045541740492309677311846336810682903157585404911491537163328978494688899061249669721172515611590283743140088328307009198146046031271664502933027185697489699588559043338384466165001178426897626212945177628091195786707458122783970171784415105291802893207873272974885715430223118336)
     (Fin 100000000000000001097906362944045541740492309677311846336810682903157585404911491537163328978494688899061249669721172515611590283743140088328307009198146046031271664502933027185697489699588559043338384466165001178426897626212945177628091195786707458122783970171784415105291802893207873272974885715430223118336)
   = PosInf"
  by code_simp

lemma rated_status: "status (fst (getById sample_runtime (store_of rated_shop) shop_id)) = 200"
  using rated_found fmt_shop by (simp add: getById_def Let_def json_def rated_shop_def)

theorem getById_average_is_string_witness:
  "coffees (store_of rated_shop) shop_id = Doc rated_shop
   \<and> comments rated_shop = Some [bob_comment, ann_comment]
   \<and> [bob_comment, ann_comment] \<noteq> []
   \<and> status (fst (getById sample_runtime (store_of rated_shop) shop_id)) = 200
   \<and> averageReview rated_shop = JNum (Fin 0)
   \<and> (\<exists>c'. getById sample_runtime (store_of rated_shop) shop_id
               = (json (JsonCoffee c'), save (store_of rated_shop) c')
          \<and> coffees (snd (getById sample_runtime (store_of rated_shop) shop_id)) shop_id = Doc c'
          \<and> averageReview c' = JStr ''4.50''
          \<and> totalReview c' = JNum (Fin 2))"
proof -
  have ne: "[bob_comment, ann_comment] \<noteq> []"
    by simp
  have before: "averageReview rated_shop = JNum (Fin 0)"
    by (simp add: rated_shop_def)
  have cid: "coffee_id rated_shop = shop_id"
    by (simp add: rated_shop_def)
  from getById_average_is_string [OF rated_found rated_comments ne rated_status]
  obtain c' where c': "getById sample_runtime (store_of rated_shop) shop_id
               = (json (JsonCoffee c'), save (store_of rated_shop) c')"
      "coffees (snd (getById sample_runtime (store_of rated_shop) shop_id)) (coffee_id rated_shop)
         = Doc c'"
      "averageReview c' =
         JStr (toFixed sample_runtime 2
           (js_div (foldl (\<lambda>acc x. js_add acc (Number_js sample_runtime (comment_review x)))
                      (Fin 0) [bob_comment, ann_comment])
                   (Fin (of_nat (length [bob_comment, ann_comment])))))"
      "totalReview c' = JNum (Fin (of_nat (length [bob_comment, ann_comment])))"
    by blast
  from c'(3) have avg: "averageReview c' = JStr ''4.50''"
    by (simp only: rated_average)
  from c'(4) have tot: "totalReview c' = JNum (Fin 2)"
    by simp
  from c'(1) c'(2) avg tot cid
  have "\<exists>c'. getById sample_runtime (store_of rated_shop) shop_id
               = (json (JsonCoffee c'), save (store_of rated_shop) c')
          \<and> coffees (snd (getById sample_runtime (store_of rated_shop) shop_id)) shop_id = Doc c'
          \<and> averageReview c' = JStr ''4.50''
          \<and> totalReview c' = JNum (Fin 2)"
    by auto
  with rated_found rated_comments ne rated_status before show ?thesis
    by (intro conjI)
qed

text \<open>
  C1 at a record without comments. The array is empty but present, so the guard
  \<open>coffee.comments ? averageReview : 0\<close> takes its first branch: the quotient is
  \<open>0 / 0\<close>, and the record is returned and saved with \<open>averageReview\<close> set to the string
  \<open>NaN\<close>, not to 0.
\<close>

theorem getById_empty_comments_NaN:
  "getById rt (store_of new_shop) shop_id =
     (json (JsonCoffee (new_shop\<lparr>averageReview := JStr ''NaN''\<rparr>)),
      save (store_of new_shop) (new_shop\<lparr>averageReview := JStr ''NaN''\<rparr>))
   \<and> totalReview new_shop = JNum (Fin 0)
   \<and> JStr ''NaN'' \<noteq> JNum (Fin 0)"
  using new_found fmt_shop
  by (simp add: getById_def Let_def Number_js_def toFixed_def new_shop_def)

text \<open>
  C3 at an id of 24 hexadecimal digits that matches no record, and at the id \<open>abc\<close>. The
  lookup comes first in both handlers. In the read handler a null result is dereferenced
  before the test for it, so the answer is 500 and not 404; an id that the store rejects
  gives 500 in both handlers, the format test being behind the lookup.
\<close>

theorem getById_deleteById_not_found_paths:
  "objectid_format other_id
   \<and> coffees (store_of new_shop) other_id = Null
   \<and> getById rt (store_of new_shop) other_id = (server_error, store_of new_shop)
   \<and> \<not> NotFoundError server_error
   \<and> \<not> objectid_format ''abc''
   \<and> getById rt (store_of new_shop) ''abc'' = (server_error, store_of new_shop)
   \<and> deleteById (store_of new_shop) ''abc'' ann = (server_error, store_of new_shop)"
  using fmt_other fmt_abc
  by (simp add: getById_def deleteById_def store_of_def new_shop_def
      shop_id_def other_id_def server_error_def NotFoundError_def)

end
